theory Spec2Isabelle
  imports Main "HOL-Library.Sublist"
begin

section \<open>JavaScript values of the calendar widget\<close>

text \<open>
  The widget (\<^verbatim>\<open>frontend/pages/student_dashboard/calendar.js\<close>, class
  \<^verbatim>\<open>CalendarManager\<close>) reads event records that arrive as parsed JSON, so a record
  is an untyped JavaScript value. An object is the list of its own properties (a key
  listed twice reads its first entry). Numbers are the integral ones; \<open>JDate\<close> is a
  valid \<^verbatim>\<open>Date\<close> object holding its time value in milliseconds since the epoch.
\<close>

datatype jsval =
    JUndefined
  | JNull
  | JBool bool
  | JNum int
  | JStr string
  | JDate int
  | JArr "jsval list"
  | JObj "(string \<times> jsval) list"

text \<open>ToBoolean: the operand test of \<^verbatim>\<open>||\<close>, \<^verbatim>\<open>!\<close> and \<^verbatim>\<open>if\<close>.\<close>

fun truthy :: "jsval \<Rightarrow> bool" where
  "truthy JUndefined = False"
| "truthy JNull = False"
| "truthy (JBool b) = b"
| "truthy (JNum n) = (n \<noteq> 0)"
| "truthy (JStr s) = (s \<noteq> [])"
| "truthy (JDate t) = True"
| "truthy (JArr xs) = True"
| "truthy (JObj kvs) = True"

text \<open>\<^verbatim>\<open>a || b\<close>: the left operand when it is truthy, else the right one.\<close>

definition js_or :: "jsval \<Rightarrow> jsval \<Rightarrow> jsval" where
  "js_or a b = (if truthy a then a else b)"

text \<open>
  Reading a property of a value that is neither \<^verbatim>\<open>null\<close> nor \<^verbatim>\<open>undefined\<close>.
  None of the keys the widget reads (\<^verbatim>\<open>summary\<close>, \<^verbatim>\<open>title\<close>, \<^verbatim>\<open>htmlLink\<close>,
  \<^verbatim>\<open>html_link\<close>, \<^verbatim>\<open>start_datetime\<close>, \<^verbatim>\<open>start\<close>, \<^verbatim>\<open>dateTime\<close>, \<^verbatim>\<open>date\<close>,
  \<^verbatim>\<open>location\<close>, \<^verbatim>\<open>description\<close>, \<^verbatim>\<open>error\<close>, \<^verbatim>\<open>events\<close>,
  \<^verbatim>\<open>has_google_access\<close>) is inherited from a built-in prototype, so a primitive, a
  date and an array read as \<^verbatim>\<open>undefined\<close>.
\<close>

fun get_prop :: "jsval \<Rightarrow> string \<Rightarrow> jsval" where
  "get_prop (JObj kvs) k = (case map_of kvs k of Some v \<Rightarrow> v | None \<Rightarrow> JUndefined)"
| "get_prop v k = JUndefined"

text \<open>\<^verbatim>\<open>v?.k\<close>: \<^verbatim>\<open>undefined\<close> when \<open>v\<close> is \<^verbatim>\<open>null\<close> or \<^verbatim>\<open>undefined\<close>.\<close>

fun opt_prop :: "jsval \<Rightarrow> string \<Rightarrow> jsval" where
  "opt_prop JUndefined k = JUndefined"
| "opt_prop JNull k = JUndefined"
| "opt_prop v k = get_prop v k"

section \<open>Event normalization\<close>

text \<open>
  \<^verbatim>\<open>getEventTitle(event) { return event?.summary || event?.title || 'No Title'; }\<close>
\<close>

definition getEventTitle :: "jsval \<Rightarrow> jsval" where
  "getEventTitle event =
     js_or (js_or (opt_prop event ''summary'') (opt_prop event ''title'')) (JStr ''No Title'')"

text \<open>
  \<^verbatim>\<open>getEventHtmlLink(event) { return event?.htmlLink || event?.html_link || ''; }\<close>
\<close>

definition getEventHtmlLink :: "jsval \<Rightarrow> jsval" where
  "getEventHtmlLink event =
     js_or (js_or (opt_prop event ''htmlLink'') (opt_prop event ''html_link'')) (JStr '''')"

text \<open>
  \<^verbatim>\<open>getEventStartString(event) {
    return event?.start_datetime || event?.start || event?.start?.dateTime
        || event?.start?.date || null; }\<close>
\<close>

definition getEventStartString :: "jsval \<Rightarrow> jsval" where
  "getEventStartString event =
     js_or (js_or (js_or (js_or (opt_prop event ''start_datetime'') (opt_prop event ''start''))
                         (opt_prop (opt_prop event ''start'') ''dateTime''))
                  (opt_prop (opt_prop event ''start'') ''date''))
           JNull"

text \<open>
  \<^verbatim>\<open>getEventStartDate(event) {
    const s = this.getEventStartString(event);
    if (!s) return null;
    const d = new Date(s);
    return isNaN(d) ? null : d; }\<close>
  The platform's \<^verbatim>\<open>new Date(s)\<close> is the parameter \<open>date_of\<close>: the time value of the
  date built from \<open>s\<close>, \<open>None\<close> for an Invalid Date. The result \<open>None\<close> is the
  \<^verbatim>\<open>null\<close> the function returns. The constructor is taken to return for every
  value; the TypeError it raises for an object whose own \<^verbatim>\<open>toString\<close> property is
  not a function is not modelled.
\<close>

definition getEventStartDate :: "(jsval \<Rightarrow> int option) \<Rightarrow> jsval \<Rightarrow> int option" where
  "getEventStartDate date_of event =
     (let s = getEventStartString event in
      if \<not> truthy s then None else date_of s)"

text \<open>
  Modelled from the spec: the source has the four accessors and no function that builds
  a NormalizedEvent. The spec gives the record as \<^verbatim>\<open>{title, startInstant, link,
  location, description}\<close>, derived from a RawEvent by the accessors: \<open>title\<close> by
  \<^verbatim>\<open>getEventTitle\<close>, \<open>startInstant\<close> by \<^verbatim>\<open>getEventStartDate\<close> (an instant or
  \<^verbatim>\<open>null\<close>), \<open>link\<close> by \<^verbatim>\<open>getEventHtmlLink\<close>, the other two as the event has
  them.
\<close>

definition normalizeEvent :: "(jsval \<Rightarrow> int option) \<Rightarrow> jsval \<Rightarrow> jsval" where
  "normalizeEvent date_of event =
     JObj [(''title'', getEventTitle event),
           (''startInstant'',
              case getEventStartDate date_of event of None \<Rightarrow> JNull | Some t \<Rightarrow> JDate t),
           (''link'', getEventHtmlLink event),
           (''location'', opt_prop event ''location''),
           (''description'', opt_prop event ''description'')]"

text \<open>
  The spec's title rule, word for word: the \<^verbatim>\<open>summary\<close> field if present, else the
  \<^verbatim>\<open>title\<close> field, else the literal. A field is present when the record has it.
\<close>

definition spec_title :: "jsval \<Rightarrow> jsval" where
  "spec_title event =
     (if opt_prop event ''summary'' \<noteq> JUndefined then opt_prop event ''summary''
      else if opt_prop event ''title'' \<noteq> JUndefined then opt_prop event ''title''
      else JStr ''No Title'')"

section \<open>Dates\<close>

text \<open>
  A \<^verbatim>\<open>Date\<close> is its time value: milliseconds since 1970-01-01T00:00:00Z, an
  integer. The functions below are the ones ECMAScript defines for the \<^verbatim>\<open>Date\<close>
  methods the widget calls. The viewer's time zone is the constant offset \<open>tza\<close>
  (milliseconds east of UTC); daylight saving and the range limit of time values are
  not part of the model.
\<close>

definition msPerDay :: int where
  "msPerDay = 86400000"

definition Day :: "int \<Rightarrow> int" where
  "Day t = t div msPerDay"

definition TimeWithinDay :: "int \<Rightarrow> int" where
  "TimeWithinDay t = t mod msPerDay"

definition DaysInYear :: "int \<Rightarrow> int" where
  "DaysInYear y =
     (if y mod 4 \<noteq> 0 then 365 else if y mod 100 \<noteq> 0 then 366
      else if y mod 400 \<noteq> 0 then 365 else 366)"

definition DayFromYear :: "int \<Rightarrow> int" where
  "DayFromYear y =
     365 * (y - 1970) + (y - 1969) div 4 - (y - 1901) div 100 + (y - 1601) div 400"

text \<open>
  The year of a day number \<open>d\<close> is the largest \<open>y\<close> with \<open>DayFromYear y \<le> d\<close>.
  It is found by counting up from a year that is not after it.
\<close>

function year_from :: "int \<Rightarrow> int \<Rightarrow> int" where
  "year_from y d = (if DayFromYear (y + 1) \<le> d then year_from (y + 1) d else y)"
  by pat_completeness auto
termination
proof (relation "measure (\<lambda>(y, d). nat (d + 1 - DayFromYear y))")
  show "wf (measure (\<lambda>(y, d). nat (d + 1 - DayFromYear y)))" by simp
next
  fix y d :: int
  assume le: "DayFromYear (y + 1) \<le> d"
  define a where "a = (y - 1968) div 4 - (y - 1969) div 4"
  define b where "b = (y - 1900) div 100 - (y - 1901) div 100"
  define c where "c = (y - 1600) div 400 - (y - 1601) div 400"
  have "0 \<le> a"
    using zdiv_mono1 [of "y - 1969" "y - 1968" 4] by (simp add: a_def)
  moreover have "b \<le> 1"
    using zdiv_mono1 [of "y - 1900" "y - 1901 + 100" 100] by (simp add: b_def)
  moreover have "0 \<le> c"
    using zdiv_mono1 [of "y - 1601" "y - 1600" 400] by (simp add: c_def)
  moreover have "DayFromYear (y + 1) = DayFromYear y + 365 + a - b + c"
    by (simp add: DayFromYear_def a_def b_def c_def algebra_simps)
  ultimately have "DayFromYear y < DayFromYear (y + 1)" by simp
  with le show "((y + 1, d), (y, d)) \<in> measure (\<lambda>(y, d). nat (d + 1 - DayFromYear y))"
    by simp
qed

definition YearFromDay :: "int \<Rightarrow> int" where
  "YearFromDay d = year_from (1970 + (if 0 \<le> d then d div 366 else d div 365)) d"

definition YearFromTime :: "int \<Rightarrow> int" where
  "YearFromTime t = YearFromDay (Day t)"

definition InLeapYear :: "int \<Rightarrow> int" where
  "InLeapYear y = (if DaysInYear y = 366 then 1 else 0)"

text \<open>The number of days of year \<open>y\<close> before the first day of month \<open>m\<close> (0 to 11).\<close>

definition DaysBeforeMonth :: "int \<Rightarrow> int \<Rightarrow> int" where
  "DaysBeforeMonth y m =
     (if m = 0 then 0 else if m = 1 then 31
      else InLeapYear y +
        (if m = 2 then 59 else if m = 3 then 90 else if m = 4 then 120
         else if m = 5 then 151 else if m = 6 then 181 else if m = 7 then 212
         else if m = 8 then 243 else if m = 9 then 273 else if m = 10 then 304
         else 334))"

definition DayWithinYear :: "int \<Rightarrow> int" where
  "DayWithinYear t = Day t - DayFromYear (YearFromTime t)"

definition MonthFromTime :: "int \<Rightarrow> int" where
  "MonthFromTime t =
     (let n = DayWithinYear t; l = InLeapYear (YearFromTime t) in
      if n < 31 then 0 else if n < 59 + l then 1 else if n < 90 + l then 2
      else if n < 120 + l then 3 else if n < 151 + l then 4 else if n < 181 + l then 5
      else if n < 212 + l then 6 else if n < 243 + l then 7 else if n < 273 + l then 8
      else if n < 304 + l then 9 else if n < 334 + l then 10 else 11)"

definition DateFromTime :: "int \<Rightarrow> int" where
  "DateFromTime t =
     DayWithinYear t - DaysBeforeMonth (YearFromTime t) (MonthFromTime t) + 1"

definition WeekDay :: "int \<Rightarrow> int" where
  "WeekDay t = (Day t + 4) mod 7"

text \<open>
  \<open>MakeDay\<close> accepts any month and day number: the month carries into the year, the
  day number counts on from the first of the month.
\<close>

definition MakeDay :: "int \<Rightarrow> int \<Rightarrow> int \<Rightarrow> int" where
  "MakeDay year month date =
     (let ym = year + month div 12; mn = month mod 12 in
      DayFromYear ym + DaysBeforeMonth ym mn + date - 1)"

definition MakeDate :: "int \<Rightarrow> int \<Rightarrow> int" where
  "MakeDate day time = day * msPerDay + time"

definition LocalTime :: "int \<Rightarrow> int \<Rightarrow> int" where
  "LocalTime tza t = t + tza"

definition UTC :: "int \<Rightarrow> int \<Rightarrow> int" where
  "UTC tza t = t - tza"

text \<open>The methods of \<^verbatim>\<open>Date\<close>, on the time value.\<close>

definition getFullYear :: "int \<Rightarrow> int \<Rightarrow> int" where
  "getFullYear tza t = YearFromTime (LocalTime tza t)"

definition getMonth :: "int \<Rightarrow> int \<Rightarrow> int" where
  "getMonth tza t = MonthFromTime (LocalTime tza t)"

definition getDate :: "int \<Rightarrow> int \<Rightarrow> int" where
  "getDate tza t = DateFromTime (LocalTime tza t)"

definition getDay :: "int \<Rightarrow> int \<Rightarrow> int" where
  "getDay tza t = WeekDay (LocalTime tza t)"

text \<open>\<^verbatim>\<open>d.setDate(dt)\<close> and \<^verbatim>\<open>d.setMonth(m)\<close> return the new time value of \<open>d\<close>.\<close>

definition setDate :: "int \<Rightarrow> int \<Rightarrow> int \<Rightarrow> int" where
  "setDate tza t dt =
     (let lt = LocalTime tza t in
      UTC tza (MakeDate (MakeDay (YearFromTime lt) (MonthFromTime lt) dt) (TimeWithinDay lt)))"

definition setMonth :: "int \<Rightarrow> int \<Rightarrow> int \<Rightarrow> int" where
  "setMonth tza t m =
     (let lt = LocalTime tza t in
      UTC tza (MakeDate (MakeDay (YearFromTime lt) m (DateFromTime lt)) (TimeWithinDay lt)))"

text \<open>
  \<^verbatim>\<open>new Date(year, month, date)\<close>: local midnight of that day; a year from 0 to 99
  stands for 1900 + year.
\<close>

definition newDateYMD :: "int \<Rightarrow> int \<Rightarrow> int \<Rightarrow> int \<Rightarrow> int" where
  "newDateYMD tza year month date =
     (let yr = (if 0 \<le> year \<and> year \<le> 99 then 1900 + year else year) in
      UTC tza (MakeDate (MakeDay yr month date) 0))"

text \<open>
  \<^verbatim>\<open>d.toISOString().split('T')[0]\<close>: the date part of the ISO string, which is the
  date in UTC. A year from 0 to 9999 has four digits, any other year a sign and six.
\<close>

fun pad_digits :: "nat \<Rightarrow> nat \<Rightarrow> string" where
  "pad_digits 0 n = []"
| "pad_digits (Suc k) n = pad_digits k (n div 10) @ [''0123456789'' ! (n mod 10)]"

definition isoDatePart :: "int \<Rightarrow> string" where
  "isoDatePart t =
     (let y = YearFromTime t in
      (if 0 \<le> y \<and> y \<le> 9999 then pad_digits 4 (nat y)
       else (if y < 0 then ''-'' else ''+'') @ pad_digits 6 (nat \<bar>y\<bar>))
      @ ''-'' @ pad_digits 2 (nat (MonthFromTime t + 1))
      @ ''-'' @ pad_digits 2 (nat (DateFromTime t)))"

text \<open>
  \<^verbatim>\<open>d.toDateString()\<close> names the weekday, month, day and year of the local date; two
  of them are equal exactly when these four are.
\<close>

definition toDateString :: "int \<Rightarrow> int \<Rightarrow> int \<times> int \<times> int \<times> int" where
  "toDateString tza t = (getDay tza t, getMonth tza t, getDate tza t, getFullYear tza t)"

subsection \<open>A reference \<^verbatim>\<open>new Date(value)\<close>\<close>

text \<open>
  The theorems about the widget hold for every \<open>date_of\<close>. Where an example needs the
  instant of a concrete string, it uses \<open>newDate\<close>, which reads the ECMAScript date
  time string format in the forms \<^verbatim>\<open>YYYY-MM-DD\<close> (midnight UTC),
  \<^verbatim>\<open>YYYY-MM-DDTHH:mm:ss\<close> and \<^verbatim>\<open>YYYY-MM-DDTHH:mm:ss.sss\<close>, the last two followed
  by \<^verbatim>\<open>Z\<close>, by an offset \<^verbatim>\<open>+HH:mm\<close> or \<^verbatim>\<open>-HH:mm\<close>, or by nothing (local time).
  What an engine makes of any other string is its own choice; here it is an Invalid
  Date. A number is a time value if it is in range, \<^verbatim>\<open>true\<close> is 1, \<^verbatim>\<open>false\<close> and
  \<^verbatim>\<open>null\<close> are 0. An object that holds no date value is converted to a string
  first: \<^verbatim>\<open>[object Object]\<close> for a plain object, which is no date; an array, whose
  string joins its elements, is read as an Invalid Date as well.
\<close>

definition digit_val :: "char \<Rightarrow> nat option" where
  "digit_val c =
     (let n = (of_char c :: nat) in if 48 \<le> n \<and> n \<le> 57 then Some (n - 48) else None)"

fun number_of :: "nat \<Rightarrow> string \<Rightarrow> nat option" where
  "number_of acc [] = Some acc"
| "number_of acc (c # cs) =
     (case digit_val c of None \<Rightarrow> None | Some n \<Rightarrow> number_of (10 * acc + n) cs)"

definition two_digits :: "string \<Rightarrow> nat option" where
  "two_digits s = (if length s = 2 then number_of 0 s else None)"

definition parse_ymd :: "string \<Rightarrow> int option" where
  "parse_ymd s =
     (if length s = 10 \<and> s ! 4 = CHR ''-'' \<and> s ! 7 = CHR ''-'' then
        (case (number_of 0 (take 4 s), two_digits (take 2 (drop 5 s)), two_digits (drop 8 s)) of
           (Some y, Some m, Some d) \<Rightarrow>
             if 1 \<le> m \<and> m \<le> 12 \<and> 1 \<le> d \<and> d \<le> 31
             then Some (MakeDay (int y) (int m - 1) (int d)) else None
         | _ \<Rightarrow> None)
      else None)"

definition parse_hms :: "string \<Rightarrow> int option" where
  "parse_hms s =
     (if length s = 8 \<and> s ! 2 = CHR '':'' \<and> s ! 5 = CHR '':'' then
        (case (two_digits (take 2 s), two_digits (take 2 (drop 3 s)), two_digits (drop 6 s)) of
           (Some h, Some m, Some sec) \<Rightarrow>
             if (h \<le> 23 \<and> m \<le> 59 \<and> sec \<le> 59) \<or> (h = 24 \<and> m = 0 \<and> sec = 0)
             then Some (int h * 3600000 + int m * 60000 + int sec * 1000) else None
         | _ \<Rightarrow> None)
      else None)"

text \<open>The offset from UTC, in milliseconds, that the end of the string names.\<close>

definition parse_offset :: "int \<Rightarrow> string \<Rightarrow> int option" where
  "parse_offset tza s =
     (if s = [] then Some tza
      else if s = ''Z'' then Some 0
      else if length s = 6 \<and> (s ! 0 = CHR ''+'' \<or> s ! 0 = CHR ''-'') \<and> s ! 3 = CHR '':'' then
        (case (two_digits (take 2 (drop 1 s)), two_digits (drop 4 s)) of
           (Some h, Some m) \<Rightarrow>
             if h \<le> 23 \<and> m \<le> 59
             then Some ((if s ! 0 = CHR ''-'' then - 1 else 1) * (int h * 3600000 + int m * 60000))
             else None
         | _ \<Rightarrow> None)
      else None)"

text \<open>The optional fraction \<^verbatim>\<open>.sss\<close>: its milliseconds and the rest of the string.\<close>

definition parse_millis :: "string \<Rightarrow> (int \<times> string) option" where
  "parse_millis s =
     (if s \<noteq> [] \<and> hd s = CHR ''.'' then
        (if 4 \<le> length s then
           (case number_of 0 (take 3 (drop 1 s)) of
              Some ms \<Rightarrow> Some (int ms, drop 4 s)
            | None \<Rightarrow> None)
         else None)
      else Some (0, s))"

definition parseISO :: "int \<Rightarrow> string \<Rightarrow> int option" where
  "parseISO tza s =
     (if length s = 10 then
        (case parse_ymd s of Some d \<Rightarrow> Some (MakeDate d 0) | None \<Rightarrow> None)
      else if 19 \<le> length s \<and> s ! 10 = CHR ''T'' then
        (case (parse_ymd (take 10 s), parse_hms (take 8 (drop 11 s)), parse_millis (drop 19 s)) of
           (Some d, Some tm, Some (ms, rest)) \<Rightarrow>
             (case parse_offset tza rest of
                Some off \<Rightarrow> Some (MakeDate d (tm + ms) - off)
              | None \<Rightarrow> None)
         | _ \<Rightarrow> None)
      else None)"

fun newDate :: "int \<Rightarrow> jsval \<Rightarrow> int option" where
  "newDate tza (JStr s) = parseISO tza s"
| "newDate tza (JNum n) = (if \<bar>n\<bar> \<le> 8640000000000000 then Some n else None)"
| "newDate tza (JDate t) = Some t"
| "newDate tza (JBool b) = Some (if b then 1 else 0)"
| "newDate tza JNull = Some 0"
| "newDate tza JUndefined = None"
| "newDate tza (JArr xs) = None"
| "newDate tza (JObj kvs) = None"

section \<open>The month grid and the upcoming list\<close>

text \<open>
  \<^verbatim>\<open>getEventsForDate(date) {
    const dateStr = date.toISOString().split('T')[0];
    return this.events.filter(event => {
      const start = this.getEventStartDate(event);
      if (!start) return false;
      const eventDate = start.toISOString().split('T')[0];
      return eventDate === dateStr; }); }\<close>
\<close>

definition getEventsForDate :: "(jsval \<Rightarrow> int option) \<Rightarrow> jsval list \<Rightarrow> int \<Rightarrow> jsval list" where
  "getEventsForDate date_of events date =
     (let dateStr = isoDatePart date in
      filter (\<lambda>event.
        case getEventStartDate date_of event of
          None \<Rightarrow> False
        | Some start \<Rightarrow> isoDatePart start = dateStr) events)"

text \<open>
  \<^verbatim>\<open>generateCalendarDays\<close> returns markup. A cell of the model holds every value the
  template of one day interpolates: the day itself, its \<^verbatim>\<open>data-date\<close> attribute, its
  number, the class it gets (\<^verbatim>\<open>!isCurrentMonth\<close>, else \<^verbatim>\<open>isToday\<close>, else the
  normal one), the event highlight, the titles of \<^verbatim>\<open>dayEvents.slice(0, 2)\<close> and the
  count of the \<^verbatim>\<open>+N more\<close> label, if there is one.
\<close>

datatype day_class = OtherMonth | Today | Normal

record cell =
  currentDay :: int
  data_date :: string
  day_number :: int
  classes :: day_class
  has_events_class :: bool
  shown_titles :: "jsval list"
  more_label :: "nat option"

text \<open>
  The body of the loop \<^verbatim>\<open>for (let i = 0; i < totalDays; i++)\<close>:
  \<^verbatim>\<open>const currentDay = new Date(startDate);
  currentDay.setDate(startDate.getDate() + i);\<close> and the template.
\<close>

definition calendarDay ::
  "int \<Rightarrow> (jsval \<Rightarrow> int option) \<Rightarrow> jsval list \<Rightarrow> int \<Rightarrow> int \<Rightarrow> int \<Rightarrow> nat \<Rightarrow> cell" where
  "calendarDay tza date_of events today month startDate i =
     (let currentDay = setDate tza startDate (getDate tza startDate + int i);
          isCurrentMonth = (getMonth tza currentDay = month);
          isToday = (toDateString tza currentDay = toDateString tza today);
          dayEvents = getEventsForDate date_of events currentDay
      in \<lparr> currentDay = currentDay,
           data_date = isoDatePart currentDay,
           day_number = getDate tza currentDay,
           classes = (if \<not> isCurrentMonth then OtherMonth else if isToday then Today else Normal),
           has_events_class = (length dayEvents > 0 \<and> isCurrentMonth \<and> \<not> isToday),
           shown_titles = map getEventTitle (take 2 dayEvents),
           more_label = (if length dayEvents > 2 then Some (length dayEvents - 2) else None) \<rparr>)"

text \<open>
  \<^verbatim>\<open>const firstDay = new Date(year, month, 1);
  const startDate = new Date(firstDay);
  startDate.setDate(startDate.getDate() - firstDay.getDay());\<close>
  with \<^verbatim>\<open>year\<close> and \<^verbatim>\<open>month\<close> those of \<^verbatim>\<open>this.currentDate\<close>. The constant
  \<^verbatim>\<open>lastDay\<close> of the source is never read.
\<close>

definition firstDay :: "int \<Rightarrow> int \<Rightarrow> int" where
  "firstDay tza current = newDateYMD tza (getFullYear tza current) (getMonth tza current) 1"

definition gridStart :: "int \<Rightarrow> int \<Rightarrow> int" where
  "gridStart tza current =
     (let first = firstDay tza current in
      setDate tza first (getDate tza first - getDay tza first))"

definition totalDays :: nat where
  "totalDays = 42"

definition generateCalendarDays ::
  "int \<Rightarrow> (jsval \<Rightarrow> int option) \<Rightarrow> int \<Rightarrow> jsval list \<Rightarrow> int \<Rightarrow> cell list" where
  "generateCalendarDays tza date_of current events today =
     (let month = getMonth tza current;
          startDate = gridStart tza current
      in map (calendarDay tza date_of events today month startDate) [0..<totalDays])"

text \<open>
  \<^verbatim>\<open>const upcomingEvents = this.events
      .filter(event => { const d = this.getEventStartDate(event);
                         return d && d >= new Date(); })
      .slice(0, 5);\<close>
  The callback reads the clock each time it runs: \<open>clock i\<close> is the reading for the
  event at index \<open>i\<close>.
\<close>

fun filter_upcoming ::
  "(jsval \<Rightarrow> int option) \<Rightarrow> (nat \<Rightarrow> int) \<Rightarrow> nat \<Rightarrow> jsval list \<Rightarrow> jsval list" where
  "filter_upcoming date_of clock i [] = []"
| "filter_upcoming date_of clock i (event # rest) =
     (case getEventStartDate date_of event of
        None \<Rightarrow> filter_upcoming date_of clock (Suc i) rest
      | Some d \<Rightarrow>
          if d \<ge> clock i then event # filter_upcoming date_of clock (Suc i) rest
          else filter_upcoming date_of clock (Suc i) rest)"

definition upcomingEvents :: "(jsval \<Rightarrow> int option) \<Rightarrow> (nat \<Rightarrow> int) \<Rightarrow> jsval list \<Rightarrow> jsval list" where
  "upcomingEvents date_of clock events = take 5 (filter_upcoming date_of clock 0 events)"

text \<open>
  \<^verbatim>\<open>generateUpcomingEvents\<close>: the placeholder markup when \<^verbatim>\<open>this.events.length === 0\<close>,
  else one entry for each of the \<^verbatim>\<open>upcomingEvents\<close>.
\<close>

datatype upcoming_markup = NoUpcomingEvents | UpcomingEntries "jsval list"

definition generateUpcomingEvents ::
  "(jsval \<Rightarrow> int option) \<Rightarrow> (nat \<Rightarrow> int) \<Rightarrow> jsval list \<Rightarrow> upcoming_markup" where
  "generateUpcomingEvents date_of clock events =
     (if length events = 0 then NoUpcomingEvents
      else UpcomingEntries (upcomingEvents date_of clock events))"

section \<open>The manager: status check, event fetch, navigation\<close>

text \<open>
  The fields of \<^verbatim>\<open>CalendarManager\<close> that the modelled methods touch. Two more
  fields record what the methods do outside the object: \<open>notifications\<close> is the list
  of calls of \<^verbatim>\<open>showNotification(message, type)\<close>, \<open>requests\<close> the list of URLs
  passed to \<^verbatim>\<open>fetch\<close>. Calls of \<^verbatim>\<open>console.error\<close> and the toggling of the
  loading indicator by \<^verbatim>\<open>updateLoadingState\<close> change nothing that is modelled.
\<close>

record manager =
  currentDate :: int
  events :: jsval
  calendarStatus :: jsval
  isLoading :: bool
  notifications :: "(jsval \<times> string) list"
  requests :: "string list"

text \<open>
  What an awaited \<^verbatim>\<open>fetch\<close> gives: a rejection (a transport error) or a response
  with its status and the value \<^verbatim>\<open>response.json()\<close> resolves to (\<open>None\<close> when the
  body is not JSON, so that the promise rejects). \<^verbatim>\<open>response.ok\<close> is a status from
  200 to 299.
\<close>

datatype exn = NetworkError | SyntaxError | TypeError | Error string

record response =
  status :: nat
  json :: "jsval option"

datatype fetched = Rejected | Resolved response

definition ok :: "response \<Rightarrow> bool" where
  "ok r = (200 \<le> status r \<and> status r \<le> 299)"

text \<open>\<^verbatim>\<open>await response.json()\<close>\<close>

definition await_json :: "response \<Rightarrow> exn + jsval" where
  "await_json r = (case json r of None \<Rightarrow> Inl SyntaxError | Some v \<Rightarrow> Inr v)"

text \<open>\<^verbatim>\<open>v.k\<close> throws a TypeError when \<open>v\<close> is \<^verbatim>\<open>null\<close> or \<^verbatim>\<open>undefined\<close>.\<close>

fun member :: "jsval \<Rightarrow> string \<Rightarrow> exn + jsval" where
  "member JUndefined k = Inl TypeError"
| "member JNull k = Inl TypeError"
| "member v k = Inr (get_prop v k)"

definition showNotification :: "jsval \<Rightarrow> string \<Rightarrow> manager \<Rightarrow> manager" where
  "showNotification message type m = m\<lparr>notifications := notifications m @ [(message, type)]\<rparr>"

definition fetch :: "string \<Rightarrow> manager \<Rightarrow> manager" where
  "fetch url m = m\<lparr>requests := requests m @ [url]\<rparr>"

definition default_status :: jsval where
  "default_status = JObj [(''has_google_access'', JBool False), (''auth_method'', JStr ''traditional'')]"

text \<open>
  \<^verbatim>\<open>checkCalendarStatus\<close>. The block under \<^verbatim>\<open>try\<close> first; a thrown exception
  leaves the fields as they were, since the only assignment is the last step.
\<close>

definition checkCalendarStatus_try :: "manager \<Rightarrow> fetched \<Rightarrow> exn + manager" where
  "checkCalendarStatus_try m f =
     (case f of
        Rejected \<Rightarrow> Inl NetworkError
      | Resolved r \<Rightarrow>
          if ok r then
            (case await_json r of
               Inl e \<Rightarrow> Inl e
             | Inr v \<Rightarrow> Inr (m\<lparr>calendarStatus := v\<rparr>))
          else Inr (m\<lparr>calendarStatus := default_status\<rparr>))"

definition checkCalendarStatus :: "manager \<Rightarrow> fetched \<Rightarrow> exn + manager" where
  "checkCalendarStatus m f =
     (let m1 = fetch ''/api/student/me/calendar/status'' m in
      case checkCalendarStatus_try m1 f of
        Inr m2 \<Rightarrow> Inr m2
      | Inl error \<Rightarrow> Inr (m1\<lparr>calendarStatus := default_status\<rparr>))"

text \<open>
  \<^verbatim>\<open>fetchCalendarEvents\<close>. The block under \<^verbatim>\<open>try\<close>, after the flag is set and the
  request is sent: it returns the manager and the value the method returns, or the
  exception thrown. Nothing is assigned before a possible throw, so the handler runs on
  the manager the block started with.
\<close>

definition events_url :: string where
  "events_url = ''/api/student/me/calendar/events?max_results=50&days_ahead=30''"

definition fetchCalendarEvents_try :: "manager \<Rightarrow> fetched \<Rightarrow> exn + manager \<times> jsval" where
  "fetchCalendarEvents_try m f =
     (case f of
        Rejected \<Rightarrow> Inl NetworkError
      | Resolved r \<Rightarrow>
          if ok r then
            (case await_json r of
               Inl e \<Rightarrow> Inl e
             | Inr data \<Rightarrow>
                 (case member data ''events'' of
                    Inl e \<Rightarrow> Inl e
                  | Inr evs \<Rightarrow>
                      let m1 = m\<lparr>events := js_or evs (JArr [])\<rparr>;
                          m2 = showNotification (JStr ''Calendar events updated'') ''success'' m1
                      in Inr (m2, events m2)))
          else if status r = 403 then
            (case await_json r of
               Inl e \<Rightarrow> Inl e
             | Inr error \<Rightarrow>
                 (case member error ''error'' of
                    Inl e \<Rightarrow> Inl e
                  | Inr msg \<Rightarrow>
                      Inr (showNotification (js_or msg (JStr ''Calendar access denied'')) ''error'' m,
                           JArr [])))
          else Inl (Error ''Failed to fetch calendar events''))"

definition fetchCalendarEvents :: "manager \<Rightarrow> fetched \<Rightarrow> exn + manager \<times> jsval" where
  "fetchCalendarEvents m f =
     (if \<not> truthy (opt_prop (calendarStatus m) ''has_google_access'') then Inr (m, JArr [])
      else
        let m1 = fetch events_url (m\<lparr>isLoading := True\<rparr>);
            (m2, result) =
              (case fetchCalendarEvents_try m1 f of
                 Inr (m', v) \<Rightarrow> (m', v)
               | Inl error \<Rightarrow>
                   (showNotification (JStr ''Failed to load calendar events'') ''error'' m1, JArr []))
        in Inr (m2\<lparr>isLoading := False\<rparr>, result))"

text \<open>
  \<^verbatim>\<open>getCalendarHTML\<close> builds the sign-in markup without access and the grid and the
  upcoming list with it. Both call \<^verbatim>\<open>this.events.filter\<close>, a TypeError when
  \<^verbatim>\<open>this.events\<close> is not an array; on an array they are the functions
  \<open>generateCalendarDays\<close> and \<open>generateUpcomingEvents\<close> above and change no field.
\<close>

fun is_array :: "jsval \<Rightarrow> bool" where
  "is_array (JArr xs) = True"
| "is_array v = False"

definition getCalendarHTML :: "manager \<Rightarrow> exn + unit" where
  "getCalendarHTML m =
     (if \<not> truthy (opt_prop (calendarStatus m) ''has_google_access'') then Inr ()
      else if is_array (events m) then Inr () else Inl TypeError)"

text \<open>
  \<^verbatim>\<open>renderCalendar\<close>: nothing without the container element; else the fetch, when
  access is granted, and then the markup.
\<close>

definition renderCalendar :: "bool \<Rightarrow> manager \<Rightarrow> fetched \<Rightarrow> exn + manager" where
  "renderCalendar calendarContainer m f =
     (if \<not> calendarContainer then Inr m
      else
        (case (if truthy (opt_prop (calendarStatus m) ''has_google_access'')
               then fetchCalendarEvents m f else Inr (m, JUndefined)) of
           Inl e \<Rightarrow> Inl e
         | Inr (m', _) \<Rightarrow>
             (case getCalendarHTML m' of
                Inl e \<Rightarrow> Inl e
              | Inr _ \<Rightarrow> Inr m')))"

text \<open>
  \<^verbatim>\<open>async navigateMonth(direction) {
    this.currentDate.setMonth(this.currentDate.getMonth() + direction);
    await this.renderCalendar(); }\<close>
\<close>

definition navigateMonth :: "int \<Rightarrow> bool \<Rightarrow> manager \<Rightarrow> int \<Rightarrow> fetched \<Rightarrow> exn + manager" where
  "navigateMonth tza calendarContainer m direction f =
     (let m1 = m\<lparr>currentDate := setMonth tza (currentDate m) (getMonth tza (currentDate m) + direction)\<rparr>
      in renderCalendar calendarContainer m1 f)"

section \<open>Properties of the accessors\<close>

lemma opt_prop_falsy: "\<not> truthy v \<Longrightarrow> opt_prop v k = JUndefined"
  by (cases v) simp_all

text \<open>
  An object is truthy, so \<^verbatim>\<open>event?.start\<close> already answers for a nested start
  object, and a falsy \<^verbatim>\<open>start\<close> has no \<^verbatim>\<open>dateTime\<close> or \<^verbatim>\<open>date\<close>: the last two
  operands before \<^verbatim>\<open>null\<close> never decide the result.
\<close>

lemma getEventStartString_eq:
  "getEventStartString event =
     (if truthy (opt_prop event ''start_datetime'') then opt_prop event ''start_datetime''
      else if truthy (opt_prop event ''start'') then opt_prop event ''start''
      else JNull)"
  by (simp add: getEventStartString_def js_or_def opt_prop_falsy)

text \<open>
  C1. The start string of an event is \<^verbatim>\<open>start_datetime\<close>, else a primitive
  \<^verbatim>\<open>start\<close>, else the nested \<^verbatim>\<open>start.dateTime\<close>, else the nested \<^verbatim>\<open>start.date\<close>,
  else \<^verbatim>\<open>null\<close>, and the start instant is parsed from it. The code does not do this
  for the two nested variants: for \<^verbatim>\<open>{summary: "Advising", start: {dateTime:
  "2025-03-10T15:00:00Z"}}\<close> and for \<^verbatim>\<open>{summary: "Team sync", start: {date:
  "2025-03-10"}}\<close> the start string is the nested object itself and the start
  instant is \<^verbatim>\<open>null\<close>, although both strings are dates.
\<close>

theorem nested_start_object_not_parsed:
  "getEventStartString
     (JObj [(''summary'', JStr ''Advising''),
            (''start'', JObj [(''dateTime'', JStr ''2025-03-10T15:00:00Z'')])])
     = JObj [(''dateTime'', JStr ''2025-03-10T15:00:00Z'')]
   \<and> getEventStartDate (newDate 0)
     (JObj [(''summary'', JStr ''Advising''),
            (''start'', JObj [(''dateTime'', JStr ''2025-03-10T15:00:00Z'')])]) = None
   \<and> getEventStartString
     (JObj [(''summary'', JStr ''Team sync''),
            (''start'', JObj [(''date'', JStr ''2025-03-10'')])])
     = JObj [(''date'', JStr ''2025-03-10'')]
   \<and> getEventStartDate (newDate 0)
     (JObj [(''summary'', JStr ''Team sync''),
            (''start'', JObj [(''date'', JStr ''2025-03-10'')])]) = None
   \<and> newDate 0 (JStr ''2025-03-10T15:00:00Z'') = Some 1741618800000
   \<and> newDate 0 (JStr ''2025-03-10'') = Some 1741564800000"
  by (simp add: getEventStartString_def getEventStartDate_def js_or_def) code_simp

text \<open>
  C9, as the spec states it: the title is the \<^verbatim>\<open>summary\<close> field if present, else the
  \<^verbatim>\<open>title\<close> field, else \<^verbatim>\<open>"No Title"\<close>. This fails for a summary that is present
  and empty: the code goes on to the \<^verbatim>\<open>title\<close> field.
\<close>

theorem title_falls_through_empty_summary:
  "getEventTitle (JObj [(''summary'', JStr ''''), (''title'', JStr ''Office hours'')])
     = JStr ''Office hours''
   \<and> spec_title (JObj [(''summary'', JStr ''''), (''title'', JStr ''Office hours'')]) = JStr ''''
   \<and> getEventTitle (JObj [(''summary'', JStr ''''), (''title'', JStr ''Office hours'')])
     \<noteq> spec_title (JObj [(''summary'', JStr ''''), (''title'', JStr ''Office hours'')])"
  by (simp add: getEventTitle_def spec_title_def js_or_def)

text \<open>
  C9, amended: the title is the \<^verbatim>\<open>summary\<close> field if it is truthy (present and not
  empty), else the \<^verbatim>\<open>title\<close> field if it is truthy, else \<^verbatim>\<open>"No Title"\<close>. For every
  event that has neither field it is \<^verbatim>\<open>"No Title"\<close>, and for every value passed as
  the event, \<^verbatim>\<open>null\<close> and \<^verbatim>\<open>undefined\<close> included, the result is truthy, hence
  neither \<^verbatim>\<open>null\<close> nor \<^verbatim>\<open>undefined\<close>.
\<close>

theorem getEventTitle_truthy_fallback:
  "getEventTitle event =
     (if truthy (opt_prop event ''summary'') then opt_prop event ''summary''
      else if truthy (opt_prop event ''title'') then opt_prop event ''title''
      else JStr ''No Title'')
   \<and> (opt_prop event ''summary'' = JUndefined \<and> opt_prop event ''title'' = JUndefined
        \<longrightarrow> getEventTitle event = JStr ''No Title'')
   \<and> truthy (getEventTitle event)
   \<and> getEventTitle event \<noteq> JNull \<and> getEventTitle event \<noteq> JUndefined"
  by (auto simp: getEventTitle_def js_or_def)

theorem getEventTitle_truthy_fallback_witness:
  "opt_prop (JObj [(''location'', JStr ''Room 2'')]) ''summary'' = JUndefined
   \<and> opt_prop (JObj [(''location'', JStr ''Room 2'')]) ''title'' = JUndefined
   \<and> getEventTitle (JObj [(''location'', JStr ''Room 2'')]) = JStr ''No Title''"
  using getEventTitle_truthy_fallback [of "JObj [(''location'', JStr ''Room 2'')]"]
  by simp

text \<open>
  C8, as the spec states it: normalizing a NormalizedEvent-shaped input yields the same
  result. This fails: the accessors read the raw field names only, so the normalized
  record of a normalized record has lost the link and the start instant.
\<close>

theorem normalizeEvent_loses_link_and_start:
  "normalizeEvent (newDate 0)
     (JObj [(''summary'', JStr ''Advising''),
            (''htmlLink'', JStr ''https://calendar.example/e/1''),
            (''start_datetime'', JStr ''2025-03-10T15:00:00Z'')])
   = JObj [(''title'', JStr ''Advising''),
           (''startInstant'', JDate 1741618800000),
           (''link'', JStr ''https://calendar.example/e/1''),
           (''location'', JUndefined),
           (''description'', JUndefined)]
   \<and> normalizeEvent (newDate 0)
     (JObj [(''title'', JStr ''Advising''),
            (''startInstant'', JDate 1741618800000),
            (''link'', JStr ''https://calendar.example/e/1''),
            (''location'', JUndefined),
            (''description'', JUndefined)])
   = JObj [(''title'', JStr ''Advising''),
           (''startInstant'', JNull),
           (''link'', JStr ''''),
           (''location'', JUndefined),
           (''description'', JUndefined)]
   \<and> normalizeEvent (newDate 0)
     (JObj [(''title'', JStr ''Advising''),
            (''startInstant'', JDate 1741618800000),
            (''link'', JStr ''https://calendar.example/e/1''),
            (''location'', JUndefined),
            (''description'', JUndefined)])
   \<noteq> JObj [(''title'', JStr ''Advising''),
            (''startInstant'', JDate 1741618800000),
            (''link'', JStr ''https://calendar.example/e/1''),
            (''location'', JUndefined),
            (''description'', JUndefined)]"
  by (simp add: normalizeEvent_def getEventTitle_def getEventHtmlLink_def
        getEventStartString_def getEventStartDate_def js_or_def) code_simp

text \<open>
  C8, amended: of the accessors, the title is stable under normalization, that is, the
  title of the normalized record of an event is the title of the event. The link
  accessor and the start accessors do not read the fields \<^verbatim>\<open>link\<close> and
  \<^verbatim>\<open>startInstant\<close> of a NormalizedEvent: on every normalized record they give the
  empty string and \<^verbatim>\<open>null\<close>.
\<close>

theorem normalizeEvent_of_normalized:
  "getEventTitle (normalizeEvent date_of event) = getEventTitle event
   \<and> getEventHtmlLink (normalizeEvent date_of event) = JStr ''''
   \<and> getEventStartString (normalizeEvent date_of event) = JNull
   \<and> getEventStartDate date_of (normalizeEvent date_of event) = None"
proof -
  have t: "truthy (getEventTitle event)"
    by (simp add: getEventTitle_def js_or_def)
  have "getEventTitle (normalizeEvent date_of event) = getEventTitle event"
    using t by (simp add: normalizeEvent_def getEventTitle_def [of "JObj _"] js_or_def)
  moreover have "getEventHtmlLink (normalizeEvent date_of event) = JStr ''''"
    by (simp add: normalizeEvent_def getEventHtmlLink_def js_or_def)
  moreover have s: "getEventStartString (normalizeEvent date_of event) = JNull"
    by (simp add: normalizeEvent_def getEventStartString_def js_or_def)
  moreover have "getEventStartDate date_of (normalizeEvent date_of event) = None"
    by (simp add: getEventStartDate_def s)
  ultimately show ?thesis by simp
qed

section \<open>Properties of the upcoming list\<close>

text \<open>With a clock that stands still the callback is a predicate of the event alone.\<close>

lemma filter_upcoming_const:
  "filter_upcoming date_of (\<lambda>_. now) i evs =
     filter (\<lambda>event. case getEventStartDate date_of event of
                        None \<Rightarrow> False | Some d \<Rightarrow> now \<le> d) evs"
  by (induction evs arbitrary: i) (auto split: option.splits)

text \<open>
  C3. For every event list and every instant \<open>now\<close> (the reading of the clock while
  the list is built), the upcoming list is the first five of the events whose start
  instant is not \<^verbatim>\<open>null\<close> and not before \<open>now\<close>, in the order of the input: it is
  a subsequence of the input, has at most five entries, and each entry has a start
  instant at or after \<open>now\<close>.
\<close>

theorem upcomingEvents_filter_take:
  "upcomingEvents date_of (\<lambda>_. now) evs =
     take 5 (filter (\<lambda>event. case getEventStartDate date_of event of
                                None \<Rightarrow> False | Some d \<Rightarrow> now \<le> d) evs)
   \<and> subseq (upcomingEvents date_of (\<lambda>_. now) evs) evs
   \<and> length (upcomingEvents date_of (\<lambda>_. now) evs) \<le> 5
   \<and> (\<forall>event \<in> set (upcomingEvents date_of (\<lambda>_. now) evs).
         \<exists>d. getEventStartDate date_of event = Some d \<and> now \<le> d)"
proof -
  let ?P = "\<lambda>event. case getEventStartDate date_of event of
                      None \<Rightarrow> False | Some d \<Rightarrow> now \<le> d"
  have eq: "upcomingEvents date_of (\<lambda>_. now) evs = take 5 (filter ?P evs)"
    by (simp add: upcomingEvents_def filter_upcoming_const)
  have "subseq (take 5 (filter ?P evs)) (filter ?P evs)"
    by (metis append_take_drop_id list_emb_prefix subseq_order.order_refl)
  then have sub: "subseq (take 5 (filter ?P evs)) evs"
    using subseq_filter_left subseq_order.order_trans by blast
  have mem: "\<exists>d. getEventStartDate date_of event = Some d \<and> now \<le> d"
    if "event \<in> set (take 5 (filter ?P evs))" for event
  proof -
    from that have "event \<in> set (filter ?P evs)" by (rule in_set_takeD)
    then have "?P event" by simp
    then show ?thesis by (cases "getEventStartDate date_of event") simp_all
  qed
  show ?thesis using eq sub mem by simp
qed

theorem upcomingEvents_filter_take_witness:
  "JObj [(''summary'', JStr ''Advising''), (''start'', JStr ''2025-03-10T15:00:00Z'')]
     \<in> set (upcomingEvents (newDate 0) (\<lambda>_. 1741600000000)
         [JObj [(''summary'', JStr ''Past''), (''start_datetime'', JStr ''2025-03-01T09:00:00Z'')],
          JObj [(''summary'', JStr ''Advising''), (''start'', JStr ''2025-03-10T15:00:00Z'')],
          JObj [(''title'', JStr ''Untimed'')]])
   \<and> (\<exists>d. getEventStartDate (newDate 0)
            (JObj [(''summary'', JStr ''Advising''), (''start'', JStr ''2025-03-10T15:00:00Z'')])
          = Some d \<and> 1741600000000 \<le> d)"
proof -
  let ?adv = "JObj [(''summary'', JStr ''Advising''), (''start'', JStr ''2025-03-10T15:00:00Z'')]"
  let ?evs = "[JObj [(''summary'', JStr ''Past''), (''start_datetime'', JStr ''2025-03-01T09:00:00Z'')],
               ?adv, JObj [(''title'', JStr ''Untimed'')]]"
  have "upcomingEvents (newDate 0) (\<lambda>_. 1741600000000) ?evs = [?adv]"
    by code_simp
  then have m: "?adv \<in> set (upcomingEvents (newDate 0) (\<lambda>_. 1741600000000) ?evs)"
    by simp
  with upcomingEvents_filter_take [of "newDate 0" 1741600000000 ?evs] show ?thesis
    by blast
qed

section \<open>Properties of the manager\<close>

text \<open>
  The status check always returns. After a successful response it has stored what the
  body parses to, whatever that is, and the default when the body is not JSON.
\<close>

lemma checkCalendarStatus_total: "\<exists>m'. checkCalendarStatus m f = Inr m'"
  by (auto simp: checkCalendarStatus_def checkCalendarStatus_try_def Let_def split: sum.splits)

lemma checkCalendarStatus_success:
  "ok r \<Longrightarrow>
   checkCalendarStatus m (Resolved r) =
     Inr (m\<lparr> requests := requests m @ [''/api/student/me/calendar/status''],
              calendarStatus := (case json r of Some v \<Rightarrow> v | None \<Rightarrow> default_status) \<rparr>)"
  by (simp add: checkCalendarStatus_def checkCalendarStatus_try_def await_json_def fetch_def
        Let_def split: option.splits)

text \<open>
  C7. For every outcome of the status request that is not a successful (2xx) response,
  a rejected request or a response with another status alike, the status check returns
  without throwing, and the stored status is then exactly
  \<^verbatim>\<open>{has_google_access: false, auth_method: 'traditional'}\<close>, which is not \<^verbatim>\<open>null\<close>.
\<close>

theorem checkCalendarStatus_failure_default:
  "f = Rejected \<or> (\<exists>r. f = Resolved r \<and> \<not> ok r) \<Longrightarrow>
   \<exists>m'. checkCalendarStatus m f = Inr m'
        \<and> calendarStatus m' =
            JObj [(''has_google_access'', JBool False), (''auth_method'', JStr ''traditional'')]
        \<and> calendarStatus m' \<noteq> JNull"
  by (auto simp: checkCalendarStatus_def checkCalendarStatus_try_def default_status_def fetch_def)

theorem checkCalendarStatus_failure_default_witness:
  "\<not> ok \<lparr> status = 500, json = None \<rparr>
   \<and> checkCalendarStatus
        \<lparr> currentDate = 1741618800000, events = JArr [], calendarStatus = JNull,
          isLoading = False, notifications = [], requests = [] \<rparr>
        (Resolved \<lparr> status = 500, json = None \<rparr>)
      = Inr \<lparr> currentDate = 1741618800000, events = JArr [],
              calendarStatus =
                JObj [(''has_google_access'', JBool False), (''auth_method'', JStr ''traditional'')],
              isLoading = False, notifications = [],
              requests = [''/api/student/me/calendar/status''] \<rparr>"
proof -
  have h: "\<not> ok \<lparr> status = 500, json = None \<rparr>" by (simp add: ok_def)
  then have "Resolved \<lparr> status = 500, json = None \<rparr> = Rejected
     \<or> (\<exists>r. Resolved \<lparr> status = 500, json = None \<rparr> = Resolved r \<and> \<not> ok r)" by blast
  from checkCalendarStatus_failure_default [OF this] h show ?thesis
    by (simp add: checkCalendarStatus_def checkCalendarStatus_try_def default_status_def fetch_def)
qed

text \<open>
  C6, as the spec states it: after an access-denied (403) response the stored event
  list is empty. This fails when an earlier fetch had filled the list: the 403 branch
  does not assign \<^verbatim>\<open>this.events\<close>, so the old events stay.
\<close>

theorem access_denied_keeps_stale_events:
  "fetchCalendarEvents
     \<lparr> currentDate = 1741618800000,
       events = JArr [JObj [(''summary'', JStr ''Advising''),
                            (''start_datetime'', JStr ''2025-03-10T15:00:00Z'')]],
       calendarStatus = JObj [(''has_google_access'', JBool True), (''auth_method'', JStr ''google'')],
       isLoading = False, notifications = [], requests = [] \<rparr>
     (Resolved \<lparr> status = 403, json = Some (JObj [(''error'', JStr ''Access revoked'')]) \<rparr>)
   = Inr (\<lparr> currentDate = 1741618800000,
            events = JArr [JObj [(''summary'', JStr ''Advising''),
                                 (''start_datetime'', JStr ''2025-03-10T15:00:00Z'')]],
            calendarStatus = JObj [(''has_google_access'', JBool True), (''auth_method'', JStr ''google'')],
            isLoading = False,
            notifications = [(JStr ''Access revoked'', ''error'')],
            requests = [events_url] \<rparr>,
          JArr [])
   \<and> JArr [JObj [(''summary'', JStr ''Advising''),
                  (''start_datetime'', JStr ''2025-03-10T15:00:00Z'')]] \<noteq> JArr []"
  by (simp add: fetchCalendarEvents_def fetchCalendarEvents_try_def ok_def await_json_def
        showNotification_def fetch_def js_or_def)

text \<open>
  C6, amended: for every fetch of events, with access granted, that receives an
  access-denied (403) response, the fetcher returns the empty list without throwing,
  leaves the stored event list as it was (empty if it was empty), and emits one error
  notification: the \<^verbatim>\<open>error\<close> field of the JSON body if that is truthy,
  \<^verbatim>\<open>'Calendar access denied'\<close> if it is not, and \<^verbatim>\<open>'Failed to load calendar
  events'\<close> if the body is not JSON or is \<^verbatim>\<open>null\<close>.
\<close>

theorem fetchCalendarEvents_access_denied:
  "truthy (opt_prop (calendarStatus m) ''has_google_access'') \<Longrightarrow> status r = 403 \<Longrightarrow>
   fetchCalendarEvents m (Resolved r) =
     Inr (m\<lparr> isLoading := False,
              requests := requests m @ [events_url],
              notifications := notifications m @
                [(case json r of
                    None \<Rightarrow> JStr ''Failed to load calendar events''
                  | Some error \<Rightarrow>
                      (case member error ''error'' of
                         Inl e \<Rightarrow> JStr ''Failed to load calendar events''
                       | Inr msg \<Rightarrow> js_or msg (JStr ''Calendar access denied'')),
                  ''error'')] \<rparr>,
          JArr [])
   \<and> events (fst (projr (fetchCalendarEvents m (Resolved r)))) = events m"
  by (simp add: fetchCalendarEvents_def fetchCalendarEvents_try_def ok_def await_json_def
        showNotification_def fetch_def Let_def split: option.splits sum.splits)

theorem fetchCalendarEvents_access_denied_witness:
  "truthy (opt_prop (JObj [(''has_google_access'', JBool True), (''auth_method'', JStr ''google'')])
             ''has_google_access'')
   \<and> fetchCalendarEvents
     \<lparr> currentDate = 1741618800000, events = JArr [],
       calendarStatus = JObj [(''has_google_access'', JBool True), (''auth_method'', JStr ''google'')],
       isLoading = False, notifications = [], requests = [] \<rparr>
     (Resolved \<lparr> status = 403, json = Some (JObj [(''error'', JStr ''Access revoked'')]) \<rparr>)
   = Inr (\<lparr> currentDate = 1741618800000, events = JArr [],
            calendarStatus = JObj [(''has_google_access'', JBool True), (''auth_method'', JStr ''google'')],
            isLoading = False,
            notifications = [(JStr ''Access revoked'', ''error'')],
            requests = [events_url] \<rparr>,
          JArr [])"
  using fetchCalendarEvents_access_denied
    [of "\<lparr> currentDate = 1741618800000, events = JArr [],
          calendarStatus = JObj [(''has_google_access'', JBool True), (''auth_method'', JStr ''google'')],
          isLoading = False, notifications = [], requests = [] \<rparr>"
        "\<lparr> status = 403, json = Some (JObj [(''error'', JStr ''Access revoked'')]) \<rparr>"]
  by (simp add: js_or_def)

text \<open>
  C10. For every execution of the event fetch with provider access granted, whatever
  the request gives (a successful response, a 403, another status, a rejected request
  or a body that is not JSON), the method returns and \<^verbatim>\<open>isLoading\<close> is false then.
\<close>

theorem fetchCalendarEvents_resets_isLoading:
  "truthy (opt_prop (calendarStatus m) ''has_google_access'') \<Longrightarrow>
   \<exists>m' result. fetchCalendarEvents m f = Inr (m', result) \<and> \<not> isLoading m'"
  by (simp add: fetchCalendarEvents_def Let_def split: sum.splits prod.splits)

theorem fetchCalendarEvents_resets_isLoading_witness:
  "truthy (opt_prop (JObj [(''has_google_access'', JBool True)]) ''has_google_access'')
   \<and> (\<exists>m' result.
        fetchCalendarEvents
          \<lparr> currentDate = 1741618800000, events = JArr [],
            calendarStatus = JObj [(''has_google_access'', JBool True)],
            isLoading = True, notifications = [], requests = [] \<rparr> Rejected
        = Inr (m', result) \<and> \<not> isLoading m')"
proof -
  have h: "truthy (opt_prop (calendarStatus
          \<lparr> currentDate = 1741618800000, events = JArr [],
            calendarStatus = JObj [(''has_google_access'', JBool True)],
            isLoading = True, notifications = [], requests = [] \<rparr>) ''has_google_access'')"
    by simp
  from fetchCalendarEvents_resets_isLoading [OF h, of Rejected] show ?thesis by simp
qed

section \<open>Properties of the dates\<close>

subsection \<open>Years\<close>

text \<open>Going back one unit drops the quotient exactly at the multiples of \<open>k\<close>.\<close>

lemma div_pred:
  fixes a k :: int
  assumes "0 < k"
  shows "(a - 1) div k = (if a mod k = 0 then a div k - 1 else a div k)"
proof (cases "a mod k = 0")
  case True
  have a: "a = k * (a div k)" using True by (metis add.right_neutral mult_div_mod_eq)
  have "a - 1 = k * (a div k - 1) + (k - 1)"
    using a by (simp add: algebra_simps)
  then have "(a - 1) div k = a div k - 1"
    using assms int_div_pos_eq [of "a - 1" k "a div k - 1" "k - 1"] by simp
  with True show ?thesis by simp
next
  case False
  have r: "0 \<le> a mod k" "a mod k < k" using assms by simp_all
  have "a - 1 = k * (a div k) + (a mod k - 1)" by simp
  then have "(a - 1) div k = a div k"
    using r False int_div_pos_eq [of "a - 1" k "a div k" "a mod k - 1"] by simp
  with False show ?thesis by simp
qed

lemma DayFromYear_Suc: "DayFromYear (y + 1) = DayFromYear y + DaysInYear y"
proof -
  have m4: "(y - 1968) mod 4 = y mod 4"
    using mod_mult_self2 [of y 4 "- 492"] by simp
  have m100: "(y - 1900) mod 100 = y mod 100"
    using mod_mult_self2 [of y 100 "- 19"] by simp
  have m400: "(y - 1600) mod 400 = y mod 400"
    using mod_mult_self2 [of y 400 "- 4"] by simp
  have d4: "(y - 1969) div 4 = (if y mod 4 = 0 then (y - 1968) div 4 - 1 else (y - 1968) div 4)"
    using div_pred [of 4 "y - 1968"] by (simp add: m4)
  have d100: "(y - 1901) div 100 = (if y mod 100 = 0 then (y - 1900) div 100 - 1 else (y - 1900) div 100)"
    using div_pred [of 100 "y - 1900"] by (simp add: m100)
  have d400: "(y - 1601) div 400 = (if y mod 400 = 0 then (y - 1600) div 400 - 1 else (y - 1600) div 400)"
    using div_pred [of 400 "y - 1600"] by (simp add: m400)
  have i1: "y mod 4 = 0" if "y mod 100 = 0"
    using that mod_mod_cancel [of 4 100 y] by simp
  have i2: "y mod 100 = 0" if "y mod 400 = 0"
    using that mod_mod_cancel [of 100 400 y] by simp
  show ?thesis
    using i1 i2 by (auto simp: DayFromYear_def DaysInYear_def d4 d100 d400)
qed

lemma DaysInYear_cases: "DaysInYear y = 365 \<or> DaysInYear y = 366"
  by (simp add: DaysInYear_def)

lemma DayFromYear_mono: "y \<le> y' \<Longrightarrow> DayFromYear y \<le> DayFromYear y'"
proof (induction y' rule: int_ge_induct)
  case base
  show ?case by simp
next
  case (step i)
  then show ?case using DayFromYear_Suc [of i] DaysInYear_cases [of i] by auto
qed

lemma year_from_bracket:
  "DayFromYear y \<le> d \<Longrightarrow>
   DayFromYear (year_from y d) \<le> d \<and> d < DayFromYear (year_from y d + 1)"
proof (induction y d rule: year_from.induct)
  case (1 y d)
  show ?case
  proof (cases "DayFromYear (y + 1) \<le> d")
    case True
    with "1.IH" have "DayFromYear (year_from (y + 1) d) \<le> d
        \<and> d < DayFromYear (year_from (y + 1) d + 1)" by simp
    moreover have "year_from y d = year_from (y + 1) d"
      using True by (subst year_from.simps) simp
    ultimately show ?thesis by simp
  next
    case False
    then have "year_from y d = y" by (subst year_from.simps) simp
    with False "1.prems" show ?thesis by simp
  qed
qed

lemma year_unique:
  assumes "DayFromYear y \<le> d" "d < DayFromYear (y + 1)"
      and "DayFromYear z \<le> d" "d < DayFromYear (z + 1)"
  shows "y = z"
proof (rule ccontr)
  assume "y \<noteq> z"
  then consider "y + 1 \<le> z" | "z + 1 \<le> y" by linarith
  then show False
  proof cases
    case 1
    from DayFromYear_mono [OF this] assms show False by simp
  next
    case 2
    from DayFromYear_mono [OF this] assms show False by simp
  qed
qed

lemma DayFromYear_1970: "DayFromYear 1970 = 0"
  by (simp add: DayFromYear_def)

lemma DayFromYear_upper: "0 \<le> k \<Longrightarrow> DayFromYear (1970 + k) \<le> 366 * k"
proof (induction k rule: int_ge_induct)
  case base
  show ?case by (simp add: DayFromYear_1970)
next
  case (step i)
  then show ?case
    using DayFromYear_Suc [of "1970 + i"] DaysInYear_cases [of "1970 + i"]
    by (auto simp: add.assoc)
qed

lemma DayFromYear_lower: "k \<le> 0 \<Longrightarrow> DayFromYear (1970 + k) \<le> 365 * k"
proof (induction k rule: int_le_induct)
  case base
  show ?case by (simp add: DayFromYear_1970)
next
  case (step i)
  have "DayFromYear (1970 + (i - 1) + 1) = DayFromYear (1970 + (i - 1)) + DaysInYear (1970 + (i - 1))"
    by (rule DayFromYear_Suc)
  then have "DayFromYear (1970 + i) = DayFromYear (1970 + (i - 1)) + DaysInYear (1970 + (i - 1))"
    by simp
  with step show ?case
    using DaysInYear_cases [of "1970 + (i - 1)"] by auto
qed

lemma year_estimate:
  "DayFromYear (1970 + (if 0 \<le> d then d div 366 else d div 365)) \<le> d"
proof (cases "0 \<le> d")
  case True
  then have "0 \<le> d div 366" by simp
  from DayFromYear_upper [OF this] have "DayFromYear (1970 + d div 366) \<le> 366 * (d div 366)" .
  also have "\<dots> \<le> d" by (simp add: minus_mod_eq_mult_div [symmetric])
  finally show ?thesis using True by simp
next
  case False
  then have "d div 365 \<le> 0" using zdiv_mono1 [of d 0 365] by simp
  from DayFromYear_lower [OF this] have "DayFromYear (1970 + d div 365) \<le> 365 * (d div 365)" .
  also have "\<dots> \<le> d" by (simp add: minus_mod_eq_mult_div [symmetric])
  finally show ?thesis using False by simp
qed

lemma YearFromDay_bracket:
  "DayFromYear (YearFromDay d) \<le> d \<and> d < DayFromYear (YearFromDay d + 1)"
  unfolding YearFromDay_def by (rule year_from_bracket) (rule year_estimate)

lemma YearFromDay_eq:
  "DayFromYear y \<le> d \<Longrightarrow> d < DayFromYear (y + 1) \<Longrightarrow> YearFromDay d = y"
  using YearFromDay_bracket [of d] year_unique [of "YearFromDay d" d y] by simp

lemma DayWithinYear_range:
  "0 \<le> DayWithinYear t \<and> DayWithinYear t < DaysInYear (YearFromTime t)"
  using YearFromDay_bracket [of "Day t"] DayFromYear_Suc [of "YearFromTime t"]
  by (simp add: DayWithinYear_def YearFromTime_def)

subsection \<open>Months and days of the month\<close>

lemma InLeapYear_cases: "InLeapYear y = 0 \<or> InLeapYear y = 1"
  by (simp add: InLeapYear_def)

lemma DaysBeforeMonth_MonthFromTime:
  "0 \<le> DayWithinYear t \<Longrightarrow>
   DaysBeforeMonth (YearFromTime t) (MonthFromTime t) \<le> DayWithinYear t"
  unfolding MonthFromTime_def DaysBeforeMonth_def Let_def
  using InLeapYear_cases [of "YearFromTime t"] by (simp split: if_splits)

lemma DateFromTime_ge_1: "1 \<le> DateFromTime t"
  using DayWithinYear_range [of t] DaysBeforeMonth_MonthFromTime [of t]
  by (simp add: DateFromTime_def)

lemma Day_MakeDate: "0 \<le> tm \<Longrightarrow> tm < msPerDay \<Longrightarrow> Day (MakeDate d tm) = d"
  by (simp add: Day_def MakeDate_def msPerDay_def)

lemma TimeWithinDay_range: "0 \<le> TimeWithinDay t \<and> TimeWithinDay t < msPerDay"
  by (simp add: TimeWithinDay_def msPerDay_def)

lemma month_cases:
  "0 \<le> m \<Longrightarrow> m \<le> 11 \<Longrightarrow>
   m = 0 \<or> m = 1 \<or> m = 2 \<or> m = 3 \<or> m = 4 \<or> m = 5 \<or> m = 6 \<or> m = 7 \<or> m = 8
     \<or> m = 9 \<or> m = 10 \<or> m = (11::int)"
  by arith

lemma month_of_day_within_year:
  fixes m dt l n :: int
  assumes m: "0 \<le> m" "m \<le> 11" and dt: "1 \<le> dt" "dt \<le> 28"
      and l: "l = 0 \<or> l = (1::int)"
      and n: "n = (if m = 0 then 0 else if m = 1 then 31
      else l +
        (if m = 2 then 59 else if m = 3 then 90 else if m = 4 then 120
         else if m = 5 then 151 else if m = 6 then 181 else if m = 7 then 212
         else if m = 8 then 243 else if m = 9 then 273 else if m = 10 then 304
         else 334)) + dt - 1"
  shows "(if n < 31 then 0 else if n < 59 + l then 1 else if n < 90 + l then 2
      else if n < 120 + l then 3 else if n < 151 + l then 4 else if n < 181 + l then 5
      else if n < 212 + l then 6 else if n < 243 + l then 7 else if n < 273 + l then 8
      else if n < 304 + l then 9 else if n < 334 + l then 10 else 11) = m"
  using month_cases [OF m] 
proof (elim disjE)
  show ?thesis if "m = 0" using that dt l n by simp
  show ?thesis if "m = 1" using that dt l n by auto
  show ?thesis if "m = 2" using that dt l n by auto
  show ?thesis if "m = 3" using that dt l n by auto
  show ?thesis if "m = 4" using that dt l n by auto
  show ?thesis if "m = 5" using that dt l n by auto
  show ?thesis if "m = 6" using that dt l n by auto
  show ?thesis if "m = 7" using that dt l n by auto
  show ?thesis if "m = 8" using that dt l n by auto
  show ?thesis if "m = 9" using that dt l n by auto
  show ?thesis if "m = 10" using that dt l n by auto
  show ?thesis if "m = 11" using that dt l n by auto
qed


lemma civil_of_day:
  assumes m: "0 \<le> m" "m \<le> 11" and dt: "1 \<le> dt" "dt \<le> 28"
      and t: "Day t = DayFromYear y + DaysBeforeMonth y m + dt - 1"
  shows "YearFromTime t = y \<and> MonthFromTime t = m \<and> DateFromTime t = dt"
proof -
  have l: "InLeapYear y = 0 \<or> InLeapYear y = 1" by (rule InLeapYear_cases)
  have b: "0 \<le> DaysBeforeMonth y m \<and> DaysBeforeMonth y m \<le> 335"
    using l by (auto simp: DaysBeforeMonth_def)
  have "DayFromYear y \<le> Day t" using b dt t by simp
  moreover have "Day t < DayFromYear (y + 1)"
    using b dt t DaysInYear_cases [of y] by (auto simp: DayFromYear_Suc)
  ultimately have y: "YearFromTime t = y"
    unfolding YearFromTime_def by (rule YearFromDay_eq)
  have n: "DayWithinYear t = DaysBeforeMonth y m + dt - 1"
    by (simp add: DayWithinYear_def y t)
  have mo: "MonthFromTime t = m"
    unfolding MonthFromTime_def Let_def y
    by (rule month_of_day_within_year [OF m dt l]) (simp add: n DaysBeforeMonth_def)
  have "DateFromTime t = dt"
    by (simp add: DateFromTime_def y n mo)
  with y mo show ?thesis by simp
qed

lemma civil_of_MakeDay:
  assumes dt: "1 \<le> dt" "dt \<le> 28" and tm: "0 \<le> tm" "tm < msPerDay"
  shows "YearFromTime (MakeDate (MakeDay y m dt) tm) = y + m div 12
       \<and> MonthFromTime (MakeDate (MakeDay y m dt) tm) = m mod 12
       \<and> DateFromTime (MakeDate (MakeDay y m dt) tm) = dt"
proof -
  have "Day (MakeDate (MakeDay y m dt) tm)
      = DayFromYear (y + m div 12) + DaysBeforeMonth (y + m div 12) (m mod 12) + dt - 1"
    using tm by (simp add: Day_MakeDate MakeDay_def Let_def)
  moreover have "0 \<le> m mod 12" "m mod 12 \<le> 11" by simp_all
  ultimately show ?thesis using dt by (intro civil_of_day) simp_all
qed

lemma setMonth_civil:
  assumes "getDate tza t \<le> 28"
  shows "getFullYear tza (setMonth tza t m) = getFullYear tza t + m div 12
       \<and> getMonth tza (setMonth tza t m) = m mod 12
       \<and> getDate tza (setMonth tza t m) = getDate tza t"
proof -
  let ?lt = "LocalTime tza t"
  have "1 \<le> DateFromTime ?lt" by (rule DateFromTime_ge_1)
  moreover have "DateFromTime ?lt \<le> 28" using assms by (simp add: getDate_def)
  moreover have "0 \<le> TimeWithinDay ?lt" "TimeWithinDay ?lt < msPerDay"
    using TimeWithinDay_range [of ?lt] by simp_all
  ultimately have c: "YearFromTime (MakeDate (MakeDay (YearFromTime ?lt) m (DateFromTime ?lt)) (TimeWithinDay ?lt))
        = YearFromTime ?lt + m div 12
     \<and> MonthFromTime (MakeDate (MakeDay (YearFromTime ?lt) m (DateFromTime ?lt)) (TimeWithinDay ?lt))
        = m mod 12
     \<and> DateFromTime (MakeDate (MakeDay (YearFromTime ?lt) m (DateFromTime ?lt)) (TimeWithinDay ?lt))
        = DateFromTime ?lt"
    by (rule civil_of_MakeDay)
  have "LocalTime tza (setMonth tza t m)
      = MakeDate (MakeDay (YearFromTime ?lt) m (DateFromTime ?lt)) (TimeWithinDay ?lt)"
    by (simp add: setMonth_def Let_def LocalTime_def UTC_def)
  with c show ?thesis by (simp add: getFullYear_def getMonth_def getDate_def)
qed

lemma firstDay_civil:
  assumes "\<not> (0 \<le> getFullYear tza current \<and> getFullYear tza current \<le> 99)"
  shows "getFullYear tza (firstDay tza current) = getFullYear tza current
       \<and> getMonth tza (firstDay tza current) = getMonth tza current
       \<and> getDate tza (firstDay tza current) = 1"
proof -
  let ?y = "getFullYear tza current" and ?m = "getMonth tza current"
  have m: "0 \<le> ?m" "?m \<le> 11"
    by (simp_all add: getMonth_def MonthFromTime_def Let_def)
  have "LocalTime tza (firstDay tza current) = MakeDate (MakeDay ?y ?m 1) 0"
    using assms by (auto simp: firstDay_def newDateYMD_def Let_def LocalTime_def UTC_def)
  moreover have "YearFromTime (MakeDate (MakeDay ?y ?m 1) 0) = ?y + ?m div 12
       \<and> MonthFromTime (MakeDate (MakeDay ?y ?m 1) 0) = ?m mod 12
       \<and> DateFromTime (MakeDate (MakeDay ?y ?m 1) 0) = 1"
    by (rule civil_of_MakeDay) (simp_all add: msPerDay_def)
  ultimately show ?thesis using m by (simp add: getFullYear_def getMonth_def getDate_def)
qed

subsection \<open>Adding days\<close>

lemma MonthFromTime_range: "0 \<le> MonthFromTime t \<and> MonthFromTime t \<le> 11"
  by (simp add: MonthFromTime_def Let_def)

lemma MakeDay_month_in_year:
  "0 \<le> m \<Longrightarrow> m \<le> 11 \<Longrightarrow> MakeDay y m d = DayFromYear y + DaysBeforeMonth y m + d - 1"
  by (simp add: MakeDay_def Let_def)

lemma MakeDay_DateFromTime:
  "MakeDay (YearFromTime t) (MonthFromTime t) (DateFromTime t + k) = Day t + k"
  using MonthFromTime_range [of t]
  by (simp add: MakeDay_month_in_year DateFromTime_def DayWithinYear_def)

lemma MakeDate_Day: "MakeDate (Day t + k) (TimeWithinDay t) = t + k * msPerDay"
  by (simp add: MakeDate_def Day_def TimeWithinDay_def algebra_simps)

lemma setDate_getDate: "setDate tza t (getDate tza t + k) = t + k * msPerDay"
  by (simp add: setDate_def getDate_def Let_def MakeDay_DateFromTime MakeDate_Day
        LocalTime_def UTC_def)

lemma Day_add_days: "Day (t + k * msPerDay) = Day t + k"
  by (simp add: Day_def msPerDay_def)

lemma getDay_range: "0 \<le> getDay tza t \<and> getDay tza t \<le> 6"
  by (simp add: getDay_def WeekDay_def)

lemma gridStart_eq:
  "gridStart tza current = firstDay tza current - getDay tza (firstDay tza current) * msPerDay"
  using setDate_getDate [of tza "firstDay tza current" "- getDay tza (firstDay tza current)"]
  by (simp add: gridStart_def Let_def)

lemma getDay_add_days: "getDay tza (t + k * msPerDay) = (getDay tza t + k) mod 7"
proof -
  have "LocalTime tza (t + k * msPerDay) = LocalTime tza t + k * msPerDay"
    by (simp add: LocalTime_def)
  then have "getDay tza (t + k * msPerDay) = (Day (LocalTime tza t) + k + 4) mod 7"
    by (simp add: getDay_def WeekDay_def Day_add_days)
  also have "\<dots> = ((Day (LocalTime tza t) + 4) mod 7 + k) mod 7"
    by (simp add: mod_simps algebra_simps)
  finally show ?thesis by (simp add: getDay_def WeekDay_def)
qed

lemma getDay_gridStart: "getDay tza (gridStart tza current) = 0"
  using getDay_add_days [of tza "firstDay tza current" "- getDay tza (firstDay tza current)"]
  by (simp add: gridStart_eq)

lemma currentDay_calendarDay:
  "currentDay (calendarDay tza date_of evs today month startDate i) = startDate + int i * msPerDay"
  by (simp add: calendarDay_def Let_def setDate_getDate)

section \<open>Properties of the month grid\<close>

text \<open>
  The cell at index \<open>i\<close> is built for the day \<open>i\<close> days after the start of the
  grid; it shows the titles of the first two events of that day and counts the rest.
\<close>

lemma generateCalendarDays_nth:
  "i < 42 \<Longrightarrow>
   generateCalendarDays tza date_of current evs today ! i
     = calendarDay tza date_of evs today (getMonth tza current) (gridStart tza current) i"
  by (simp add: generateCalendarDays_def Let_def totalDays_def)

lemma calendarDay_events:
  "shown_titles (calendarDay tza date_of evs today month startDate i)
     = map getEventTitle (take 2 (getEventsForDate date_of evs (startDate + int i * msPerDay)))
   \<and> length (shown_titles (calendarDay tza date_of evs today month startDate i)) \<le> 2
   \<and> more_label (calendarDay tza date_of evs today month startDate i)
     = (let n = length (getEventsForDate date_of evs (startDate + int i * msPerDay))
        in if n > 2 then Some (n - 2) else None)"
  by (simp add: calendarDay_def Let_def setDate_getDate)

text \<open>
  C2. For every reference date, in every time zone and whatever the events are, the
  grid has exactly 42 cells; their days are consecutive, one day apart, from the start
  of the grid; the start is the first day of the reference month moved back by its
  weekday number (0 to 6, Sunday is 0), and it is a Sunday. The first day is the one
  \<^verbatim>\<open>new Date(year, month, 1)\<close> builds: for a year outside 0 to 99, which that
  constructor reads as 1900 + year, it is the first of the reference month, February of
  a leap year or of another year included.
\<close>

theorem generateCalendarDays_42_consecutive:
  "length (generateCalendarDays tza date_of current evs today) = 42
   \<and> map currentDay (generateCalendarDays tza date_of current evs today)
       = map (\<lambda>i. gridStart tza current + int i * msPerDay) [0..<42]
   \<and> gridStart tza current
       = firstDay tza current - getDay tza (firstDay tza current) * msPerDay
   \<and> 0 \<le> getDay tza (firstDay tza current) \<and> getDay tza (firstDay tza current) \<le> 6
   \<and> getDay tza (gridStart tza current) = 0
   \<and> (\<not> (0 \<le> getFullYear tza current \<and> getFullYear tza current \<le> 99) \<longrightarrow>
         getFullYear tza (firstDay tza current) = getFullYear tza current
       \<and> getMonth tza (firstDay tza current) = getMonth tza current
       \<and> getDate tza (firstDay tza current) = 1)"
proof -
  have "map currentDay (generateCalendarDays tza date_of current evs today)
       = map (\<lambda>i. gridStart tza current + int i * msPerDay) [0..<42]"
    by (simp add: generateCalendarDays_def Let_def totalDays_def currentDay_calendarDay comp_def)
  moreover have "length (generateCalendarDays tza date_of current evs today) = 42"
    by (simp add: generateCalendarDays_def Let_def totalDays_def)
  ultimately show ?thesis
    using getDay_range [of tza "firstDay tza current"] firstDay_civil [of tza current]
      getDay_gridStart [of tza current] gridStart_eq [of tza current]
    by blast
qed

theorem generateCalendarDays_42_consecutive_witness:
  "\<not> (0 \<le> getFullYear 0 1707000000000 \<and> getFullYear 0 1707000000000 \<le> 99)
   \<and> getFullYear 0 1707000000000 = 2024 \<and> getMonth 0 1707000000000 = 1
   \<and> getFullYear 0 (firstDay 0 1707000000000) = 2024
   \<and> getMonth 0 (firstDay 0 1707000000000) = 1
   \<and> getDate 0 (firstDay 0 1707000000000) = 1
   \<and> length (generateCalendarDays 0 (newDate 0) 1707000000000 [] 1707000000000) = 42"
proof -
  have y: "getFullYear 0 1707000000000 = 2024" by code_simp
  have m: "getMonth 0 1707000000000 = 1" by code_simp
  have h: "\<not> (0 \<le> getFullYear 0 1707000000000 \<and> getFullYear 0 1707000000000 \<le> 99)"
    by (simp add: y)
  note T = generateCalendarDays_42_consecutive [of 0 "newDate 0" 1707000000000 "[]" 1707000000000]
  from T have len: "length (generateCalendarDays 0 (newDate 0) 1707000000000 [] 1707000000000) = 42"
    by (rule conjunct1)
  from T h have "getFullYear 0 (firstDay 0 1707000000000) = getFullYear 0 1707000000000
       \<and> getMonth 0 (firstDay 0 1707000000000) = getMonth 0 1707000000000
       \<and> getDate 0 (firstDay 0 1707000000000) = 1"
    by blast
  with h y m len show ?thesis by (simp only: simp_thms)
qed

text \<open>
  C4. An event is attached to a cell exactly when the date of its start instant, in
  the viewer's local calendar, is the date of the cell. The code does not do this for a
  viewer away from UTC, since \<^verbatim>\<open>getEventsForDate\<close> compares the UTC dates that
  \<^verbatim>\<open>toISOString\<close> gives. For a viewer at UTC+05:30 and the event
  \<^verbatim>\<open>{summary: "Advising", start_datetime: "2025-03-10T15:00:00Z"}\<close>, which starts on
  10 March 2025 at 20:30 local time, the cell of 10 March (index 15 of the grid of
  March 2025) shows no event, and the cell of 11 March (index 16) shows it.
\<close>

theorem utc_date_misplaces_event:
  "getEventStartDate (newDate 19800000)
      (JObj [(''summary'', JStr ''Advising''), (''start_datetime'', JStr ''2025-03-10T15:00:00Z'')])
     = Some 1741618800000
   \<and> getFullYear 19800000 1741618800000 = 2025
   \<and> getMonth 19800000 1741618800000 = 2
   \<and> getDate 19800000 1741618800000 = 10
   \<and> currentDay (generateCalendarDays 19800000 (newDate 19800000) 1741618800000
        [JObj [(''summary'', JStr ''Advising''), (''start_datetime'', JStr ''2025-03-10T15:00:00Z'')]]
        1741618800000 ! 15) = 1741545000000
   \<and> getFullYear 19800000 1741545000000 = 2025
   \<and> getMonth 19800000 1741545000000 = 2
   \<and> getDate 19800000 1741545000000 = 10
   \<and> shown_titles (generateCalendarDays 19800000 (newDate 19800000) 1741618800000
        [JObj [(''summary'', JStr ''Advising''), (''start_datetime'', JStr ''2025-03-10T15:00:00Z'')]]
        1741618800000 ! 15) = []
   \<and> getDate 19800000 (1741545000000 + msPerDay) = 11
   \<and> shown_titles (generateCalendarDays 19800000 (newDate 19800000) 1741618800000
        [JObj [(''summary'', JStr ''Advising''), (''start_datetime'', JStr ''2025-03-10T15:00:00Z'')]]
        1741618800000 ! 16) = [JStr ''Advising'']"
proof -
  let ?ev = "JObj [(''summary'', JStr ''Advising''), (''start_datetime'', JStr ''2025-03-10T15:00:00Z'')]"
  let ?cells = "generateCalendarDays 19800000 (newDate 19800000) 1741618800000 [?ev] 1741618800000"
  have s: "getEventStartDate (newDate 19800000) ?ev = Some 1741618800000"
    by code_simp
  have l: "getFullYear 19800000 1741618800000 = 2025 \<and> getMonth 19800000 1741618800000 = 2
        \<and> getDate 19800000 1741618800000 = 10"
    by code_simp
  have g: "gridStart 19800000 1741618800000 = 1740249000000"
    by code_simp
  have c: "getFullYear 19800000 1741545000000 = 2025 \<and> getMonth 19800000 1741545000000 = 2
        \<and> getDate 19800000 1741545000000 = 10"
    by code_simp
  have n: "getDate 19800000 (1741545000000 + msPerDay) = 11"
    by code_simp
  have e15: "getEventsForDate (newDate 19800000) [?ev] 1741545000000 = []"
    by code_simp
  have e16: "getEventsForDate (newDate 19800000) [?ev] 1741631400000 = [?ev]"
    by code_simp
  have d15: "currentDay (?cells ! 15) = 1741545000000"
    by (simp add: generateCalendarDays_nth currentDay_calendarDay g msPerDay_def)
  have t15: "shown_titles (?cells ! 15) = []"
    using calendarDay_events [of 19800000 "newDate 19800000" "[?ev]" 1741618800000
        "getMonth 19800000 1741618800000" 1740249000000 15]
    by (simp add: generateCalendarDays_nth g msPerDay_def e15)
  have t16: "shown_titles (?cells ! 16) = [JStr ''Advising'']"
    using calendarDay_events [of 19800000 "newDate 19800000" "[?ev]" 1741618800000
        "getMonth 19800000 1741618800000" 1740249000000 16]
    by (simp add: generateCalendarDays_nth g msPerDay_def e16 getEventTitle_def js_or_def)
  from s l c n d15 t15 t16 show ?thesis by (simp only: simp_thms)
qed

section \<open>Properties of the navigation\<close>

text \<open>
  What the event fetch leaves alone, what it stores, and that it returns. When the
  stored events are an array and a successful response carries an array (or nothing)
  under \<^verbatim>\<open>events\<close>, they are an array afterwards.
\<close>

lemma fetchCalendarEvents_frame:
  "fetchCalendarEvents m f = Inr (m', v) \<Longrightarrow>
   currentDate m' = currentDate m \<and> calendarStatus m' = calendarStatus m"
  by (auto simp: fetchCalendarEvents_def fetchCalendarEvents_try_def showNotification_def
        fetch_def Let_def split: if_splits sum.splits prod.splits fetched.splits)

lemma fetchCalendarEvents_requests:
  "truthy (opt_prop (calendarStatus m) ''has_google_access'') \<Longrightarrow>
   fetchCalendarEvents m f = Inr (m', v) \<Longrightarrow> requests m' = requests m @ [events_url]"
  by (auto simp: fetchCalendarEvents_def fetchCalendarEvents_try_def showNotification_def
        fetch_def Let_def split: if_splits sum.splits prod.splits fetched.splits)

lemma fetchCalendarEvents_events_kept:
  "f = Rejected \<or> (\<exists>r. f = Resolved r \<and> \<not> ok r) \<Longrightarrow>
   fetchCalendarEvents m f = Inr (m', v) \<Longrightarrow> events m' = events m"
  by (auto simp: fetchCalendarEvents_def fetchCalendarEvents_try_def showNotification_def
        fetch_def Let_def split: if_splits sum.splits prod.splits)

lemma member_defined: "d \<noteq> JNull \<Longrightarrow> d \<noteq> JUndefined \<Longrightarrow> member d k = Inr (get_prop d k)"
  by (cases d) simp_all

lemma member_Inr: "member d k = Inr v \<Longrightarrow> v = get_prop d k"
  by (cases d) simp_all

lemma fetchCalendarEvents_events_replaced:
  "truthy (opt_prop (calendarStatus m) ''has_google_access'') \<Longrightarrow>
   ok r \<Longrightarrow> json r = Some d \<Longrightarrow> d \<noteq> JNull \<Longrightarrow> d \<noteq> JUndefined \<Longrightarrow>
   fetchCalendarEvents m (Resolved r) = Inr (m', v) \<Longrightarrow>
   events m' = js_or (get_prop d ''events'') (JArr [])"
  by (auto simp: fetchCalendarEvents_def fetchCalendarEvents_try_def showNotification_def
        fetch_def await_json_def member_defined Let_def)

lemma fetchCalendarEvents_total: "\<exists>m' v. fetchCalendarEvents m f = Inr (m', v)"
  by (simp add: fetchCalendarEvents_def Let_def split: sum.splits prod.splits)

lemma fetchCalendarEvents_is_array:
  assumes "is_array (events m)"
      and "\<forall>r d. f = Resolved r \<and> ok r \<and> json r = Some d
             \<longrightarrow> is_array (js_or (get_prop d ''events'') (JArr []))"
      and "fetchCalendarEvents m f = Inr (m', v)"
  shows "is_array (events m')"
proof (cases "\<exists>r d. f = Resolved r \<and> ok r \<and> json r = Some d \<and> d \<noteq> JNull \<and> d \<noteq> JUndefined
                \<and> truthy (opt_prop (calendarStatus m) ''has_google_access'')")
  case True
  then obtain r d where *: "f = Resolved r" "ok r" "json r = Some d" "d \<noteq> JNull" "d \<noteq> JUndefined"
      "truthy (opt_prop (calendarStatus m) ''has_google_access'')" by blast
  with assms(3) have "events m' = js_or (get_prop d ''events'') (JArr [])"
    using fetchCalendarEvents_events_replaced by blast
  with assms(2) * show ?thesis by simp
next
  case False
  with assms(3) have "events m' = events m"
    by (auto simp: fetchCalendarEvents_def fetchCalendarEvents_try_def showNotification_def
        fetch_def await_json_def Let_def
        split: if_splits sum.splits prod.splits fetched.splits option.splits dest: member_Inr)
  with assms(1) show ?thesis by simp
qed

text \<open>
  C5, as the spec states it: navigation issues no event fetch and leaves the stored
  event list unchanged. This fails in the Rendered state with provider access:
  \<^verbatim>\<open>navigateMonth\<close> calls \<^verbatim>\<open>renderCalendar\<close>, which fetches. Here the next-month
  button sends the request and the answer, an empty list, replaces the stored event.
\<close>

theorem navigateMonth_refetches_events:
  "navigateMonth 0 True
     \<lparr> currentDate = 1741618800000,
       events = JArr [JObj [(''summary'', JStr ''Advising''),
                            (''start_datetime'', JStr ''2025-03-10T15:00:00Z'')]],
       calendarStatus = JObj [(''has_google_access'', JBool True), (''auth_method'', JStr ''google'')],
       isLoading = False, notifications = [], requests = [] \<rparr>
     1
     (Resolved \<lparr> status = 200, json = Some (JObj [(''events'', JArr [])]) \<rparr>)
   = Inr \<lparr> currentDate = 1744297200000,
           events = JArr [],
           calendarStatus = JObj [(''has_google_access'', JBool True), (''auth_method'', JStr ''google'')],
           isLoading = False,
           notifications = [(JStr ''Calendar events updated'', ''success'')],
           requests = [events_url] \<rparr>
   \<and> getMonth 0 1741618800000 = 2 \<and> getMonth 0 1744297200000 = 3"
proof -
  have "setMonth 0 1741618800000 (getMonth 0 1741618800000 + 1) = 1744297200000"
    by code_simp
  moreover have "getMonth 0 1741618800000 = 2 \<and> getMonth 0 1744297200000 = 3"
    by code_simp
  ultimately show ?thesis
    by (simp add: navigateMonth_def renderCalendar_def getCalendarHTML_def
          fetchCalendarEvents_def fetchCalendarEvents_try_def ok_def await_json_def
          showNotification_def fetch_def js_or_def Let_def)
qed

text \<open>
  C5, amended: navigation sets the reference date to \<^verbatim>\<open>setMonth(getMonth() +
  direction)\<close> of itself, which for a day of the month up to 28 moves the reference
  month by exactly \<open>direction\<close> months and keeps the day, and then renders. The
  rendering sends one event request when the container exists and provider access is
  granted, and none otherwise. The stored event list is unchanged when no request is
  sent and when the request is rejected or answered with a status outside 200 to 299;
  it is replaced by the list of the response when the request succeeds. The event
  lists, the stored one and the one of a successful response, are arrays, as the
  interface of the server says.
\<close>

theorem navigateMonth_effect:
  assumes "is_array (events m)"
      and "\<forall>r d. f = Resolved r \<and> ok r \<and> json r = Some d
             \<longrightarrow> is_array (js_or (get_prop d ''events'') (JArr []))"
  shows "\<exists>m'. navigateMonth tza calendarContainer m direction f = Inr m'
     \<and> currentDate m' = setMonth tza (currentDate m) (getMonth tza (currentDate m) + direction)
     \<and> (getDate tza (currentDate m) \<le> 28 \<longrightarrow>
          getMonth tza (currentDate m') = (getMonth tza (currentDate m) + direction) mod 12
        \<and> getFullYear tza (currentDate m')
            = getFullYear tza (currentDate m) + (getMonth tza (currentDate m) + direction) div 12
        \<and> getDate tza (currentDate m') = getDate tza (currentDate m))
     \<and> requests m' =
         (if calendarContainer \<and> truthy (opt_prop (calendarStatus m) ''has_google_access'')
          then requests m @ [events_url] else requests m)
     \<and> (\<not> (calendarContainer \<and> truthy (opt_prop (calendarStatus m) ''has_google_access''))
          \<or> f = Rejected \<or> (\<exists>r. f = Resolved r \<and> \<not> ok r)
        \<longrightarrow> events m' = events m)
     \<and> (calendarContainer \<and> truthy (opt_prop (calendarStatus m) ''has_google_access'') \<longrightarrow>
          (\<forall>r d. f = Resolved r \<and> ok r \<and> json r = Some d \<and> d \<noteq> JNull \<and> d \<noteq> JUndefined
             \<longrightarrow> events m' = js_or (get_prop d ''events'') (JArr [])))"
proof -
  let ?d = "setMonth tza (currentDate m) (getMonth tza (currentDate m) + direction)"
  let ?m1 = "m\<lparr>currentDate := ?d\<rparr>"
  let ?access = "truthy (opt_prop (calendarStatus m) ''has_google_access'')"
  have civil: "getDate tza (currentDate m) \<le> 28 \<longrightarrow>
          getMonth tza ?d = (getMonth tza (currentDate m) + direction) mod 12
        \<and> getFullYear tza ?d
            = getFullYear tza (currentDate m) + (getMonth tza (currentDate m) + direction) div 12
        \<and> getDate tza ?d = getDate tza (currentDate m)"
    using setMonth_civil [of tza "currentDate m" "getMonth tza (currentDate m) + direction"]
    by blast
  consider (off) "\<not> calendarContainer" | (plain) "calendarContainer" "\<not> ?access"
    | (fetching) "calendarContainer" "?access" by blast
  then show ?thesis
  proof cases
    case off
    then have "navigateMonth tza calendarContainer m direction f = Inr ?m1"
      by (simp add: navigateMonth_def renderCalendar_def Let_def)
    with off civil show ?thesis by simp
  next
    case plain
    then have "navigateMonth tza calendarContainer m direction f = Inr ?m1"
      by (simp add: navigateMonth_def renderCalendar_def getCalendarHTML_def Let_def)
    with plain civil show ?thesis by simp
  next
    case fetching
    obtain m' v where r: "fetchCalendarEvents ?m1 f = Inr (m', v)"
      using fetchCalendarEvents_total by blast
    have a: "is_array (events m')"
      using fetchCalendarEvents_is_array [OF _ assms(2) r] assms(1) by simp
    have fr: "currentDate m' = ?d" "calendarStatus m' = calendarStatus m"
      using fetchCalendarEvents_frame [OF r] by simp_all
    have n: "navigateMonth tza calendarContainer m direction f = Inr m'"
      using fetching r a fr
      by (simp add: navigateMonth_def renderCalendar_def getCalendarHTML_def Let_def)
    have rq: "requests m' = requests m @ [events_url]"
      using fetchCalendarEvents_requests [OF _ r] fetching by simp
    have kept: "f = Rejected \<or> (\<exists>r. f = Resolved r \<and> \<not> ok r) \<longrightarrow> events m' = events m"
      using fetchCalendarEvents_events_kept [OF _ r] by auto
    have repl: "\<forall>r d. f = Resolved r \<and> ok r \<and> json r = Some d \<and> d \<noteq> JNull \<and> d \<noteq> JUndefined
             \<longrightarrow> events m' = js_or (get_prop d ''events'') (JArr [])"
      using fetchCalendarEvents_events_replaced [of ?m1 _ _ m' v] r fetching by auto
    show ?thesis using n fr(1) rq kept repl fetching civil by simp
  qed
qed

theorem navigateMonth_effect_witness:
  "is_array (JArr [JObj [(''summary'', JStr ''Advising'')]])
   \<and> getDate 0 1741618800000 \<le> 28
   \<and> ok \<lparr> status = 200, json = Some (JObj [(''events'', JArr [JObj [(''summary'', JStr ''Exam'')]])]) \<rparr>
   \<and> \<not> ok \<lparr> status = 500, json = None \<rparr>
   \<and> (\<exists>m'. navigateMonth 0 True
          \<lparr> currentDate = 1741618800000,
            events = JArr [JObj [(''summary'', JStr ''Advising'')]],
            calendarStatus = JObj [(''has_google_access'', JBool True)],
            isLoading = False, notifications = [], requests = [] \<rparr> 1
          (Resolved \<lparr> status = 200,
                      json = Some (JObj [(''events'', JArr [JObj [(''summary'', JStr ''Exam'')]])]) \<rparr>)
          = Inr m'
        \<and> getMonth 0 (currentDate m') = 3
        \<and> getFullYear 0 (currentDate m') = 2025
        \<and> getDate 0 (currentDate m') = 10
        \<and> requests m' = [events_url]
        \<and> events m' = JArr [JObj [(''summary'', JStr ''Exam'')]])
   \<and> (\<exists>m'. navigateMonth 0 True
          \<lparr> currentDate = 1741618800000,
            events = JArr [JObj [(''summary'', JStr ''Advising'')]],
            calendarStatus = JObj [(''has_google_access'', JBool True)],
            isLoading = False, notifications = [], requests = [] \<rparr> (- 1)
          (Resolved \<lparr> status = 500, json = None \<rparr>)
          = Inr m'
        \<and> getMonth 0 (currentDate m') = 1
        \<and> getFullYear 0 (currentDate m') = 2025
        \<and> requests m' = [events_url]
        \<and> events m' = JArr [JObj [(''summary'', JStr ''Advising'')]])"
proof -
  let ?m = "\<lparr> currentDate = 1741618800000,
            events = JArr [JObj [(''summary'', JStr ''Advising'')]],
            calendarStatus = JObj [(''has_google_access'', JBool True)],
            isLoading = False, notifications = [], requests = [] \<rparr>"
  let ?good = "\<lparr> status = 200,
                json = Some (JObj [(''events'', JArr [JObj [(''summary'', JStr ''Exam'')]])]) \<rparr>"
  let ?bad = "\<lparr> status = 500, json = None :: jsval option \<rparr>"
  have c: "getFullYear 0 1741618800000 = 2025 \<and> getMonth 0 1741618800000 = 2
        \<and> getDate 0 1741618800000 = 10"
    by code_simp
  have a: "is_array (events ?m)" by simp
  have okg: "ok ?good" and okb: "\<not> ok ?bad" by (simp_all add: ok_def)
  have g: "\<forall>r d. Resolved ?good = Resolved r \<and> ok r \<and> json r = Some d
             \<longrightarrow> is_array (js_or (get_prop d ''events'') (JArr []))"
    by (auto simp: js_or_def)
  have b: "\<forall>r d. Resolved ?bad = Resolved r \<and> ok r \<and> json r = Some d
             \<longrightarrow> is_array (js_or (get_prop d ''events'') (JArr []))"
    by auto
  have 1: "\<exists>m'. navigateMonth 0 True ?m 1 (Resolved ?good) = Inr m'
        \<and> getMonth 0 (currentDate m') = 3
        \<and> getFullYear 0 (currentDate m') = 2025
        \<and> getDate 0 (currentDate m') = 10
        \<and> requests m' = [events_url]
        \<and> events m' = JArr [JObj [(''summary'', JStr ''Exam'')]]"
    using navigateMonth_effect [OF a g, of 0 True 1] c okg by (auto simp: js_or_def)
  have 2: "\<exists>m'. navigateMonth 0 True ?m (- 1) (Resolved ?bad) = Inr m'
        \<and> getMonth 0 (currentDate m') = 1
        \<and> getFullYear 0 (currentDate m') = 2025
        \<and> requests m' = [events_url]
        \<and> events m' = JArr [JObj [(''summary'', JStr ''Advising'')]]"
    using navigateMonth_effect [OF a b, of 0 True "- 1"] c okb by auto
  from 1 2 c okg okb show ?thesis by simp
qed

end
